theory Spec2Isabelle
  imports
    Complex_Main
    "HOL-Library.AList"
    "HOL-Library.Char_ord"
    "HOL-Library.List_Lexorder"
    "HOL-Library.Product_Lexorder"
begin

section \<open>Tables\<close>

text \<open>
  The program is written against pandas. A table (DataFrame) is modelled by its column
  labels, in order, and its rows; a row holds one cell per label, as an association list,
  so that reading a column is a lookup and assigning a column (\<^verbatim>\<open>df[c] = ...\<close>) replaces
  the cell in place when the label exists and appends it otherwise, as pandas does.
  The row index is not modelled (\<^verbatim>\<open>reset_index\<close>, \<^verbatim>\<open>ignore_index\<close> and \<^verbatim>\<open>copy\<close>
  are identities here).

  A cell is a missing value (NaN, NaT and None are not told apart: all three are null to
  \<^verbatim>\<open>isna\<close> and \<^verbatim>\<open>dropna\<close>), a text, a number, an infinity (what a float division by
  zero produces; the flag is True for the positive one), a calendar date (days since the
  epoch) or a timestamp (seconds since the epoch). Numbers are exact rationals: rounding of
  the float quotient is not modelled. Text is held in UTF-8, one \<open>char\<close> per byte, so that
  the order of two texts is Python's order by code point.

  Labels within a table are pairwise distinct wherever nothing else is said: the readers of
  pandas rename repeated headers. The one step of the code that can make two labels equal
  in a table it goes on to use is the normalisation of the registry header, and
  \<open>str_strip_column\<close> below says what happens then. A provider table that carries both a
  provider name and the canonical name of one column (\<^verbatim>\<open>stock_id\<close> and \<^verbatim>\<open>ticker\<close>, say)
  is outside the model.

  The decorators \<^verbatim>\<open>st.cache_data\<close> memoise functions that are modelled as pure ones, and
  are left out.
\<close>

datatype cell = Null | Str string | Num rat | Inf bool | Date int | Stamp int

type_synonym row = "(string \<times> cell) list"

record frame =
  columns :: "string list"
  rows :: "row list"

text \<open>Every Python exception the modelled functions can end in.\<close>

datatype error =
    ValueError          \<comment> \<open>raised by the schema check, by a date that does not parse, by \<^verbatim>\<open>date.replace\<close>\<close>
  | KeyError            \<comment> \<open>\<^verbatim>\<open>df[c]\<close> on a label the table does not have\<close>
  | AttributeError      \<comment> \<open>\<^verbatim>\<open>.str\<close> on a sub-table\<close>
  | TypeError           \<comment> \<open>ordering or dividing cells of different kinds\<close>
  | UndefinedVariableError \<comment> \<open>\<^verbatim>\<open>query\<close> naming a label the table does not have\<close>
  | ProviderFault nat   \<comment> \<open>any exception of the external provider, by an opaque code\<close>
  | ReadError           \<comment> \<open>a file that exists and cannot be read as what it should be\<close>
  | IndexError          \<comment> \<open>slicing a number\<close>
  | SystemExit          \<comment> \<open>\<^verbatim>\<open>raise SystemExit(message)\<close>: exit status 1\<close>

definition cell_get :: "row \<Rightarrow> string \<Rightarrow> cell" where
  "cell_get r c = (case map_of r c of None \<Rightarrow> Null | Some v \<Rightarrow> v)"

definition empty_frame :: "string list \<Rightarrow> frame" where
  \<comment> \<open>\<^verbatim>\<open>pd.DataFrame(columns=cs)\<close>\<close>
  "empty_frame cs = \<lparr>columns = cs, rows = []\<rparr>"

definition is_empty :: "frame \<Rightarrow> bool" where
  \<comment> \<open>\<^verbatim>\<open>df.empty\<close>: no rows or no columns\<close>
  "is_empty df = (rows df = [] \<or> columns df = [])"

definition getitem :: "frame \<Rightarrow> string \<Rightarrow> error + cell list" where
  \<comment> \<open>\<^verbatim>\<open>df[c]\<close> for a label that occurs at most once\<close>
  "getitem df c =
     (if c \<in> set (columns df) then Inr (map (\<lambda>r. cell_get r c) (rows df)) else Inl KeyError)"

definition setitem :: "string \<Rightarrow> cell list \<Rightarrow> frame \<Rightarrow> frame" where
  \<comment> \<open>\<^verbatim>\<open>df[c] = values\<close>, one value per row\<close>
  "setitem c vs df =
     \<lparr>columns = (if c \<in> set (columns df) then columns df else columns df @ [c]),
      rows = map (\<lambda>(r, v). AList.update c v r) (zip (rows df) vs)\<rparr>"


definition select :: "string list \<Rightarrow> frame \<Rightarrow> error + frame" where
  \<comment> \<open>\<^verbatim>\<open>df[[c1, ..., cn]]\<close>\<close>
  "select cs df =
     (if set cs \<subseteq> set (columns df)
      then Inr \<lparr>columns = cs, rows = map (\<lambda>r. map (\<lambda>c. (c, cell_get r c)) cs) (rows df)\<rparr>
      else Inl KeyError)"

definition table :: "string list \<Rightarrow> cell list list \<Rightarrow> frame" where
  \<comment> \<open>a table written out: the labels, then the cells of each row\<close>
  "table cs vss = \<lparr>columns = cs, rows = map (zip cs) vss\<rparr>"

definition canonical :: "string list" where
  "canonical = [''ticker'', ''name'', ''date'', ''revenue'']"

section \<open>Text\<close>






definition astype_str :: "(cell \<Rightarrow> string) \<Rightarrow> cell \<Rightarrow> string" where
  \<comment> \<open>\<^verbatim>\<open>astype(str)\<close> on one cell: text stays, a missing value becomes the text nan (as
      in pandas 1 and 2), and \<open>fmt\<close> stands for Python's \<^verbatim>\<open>str\<close> on numbers and dates\<close>
  "astype_str fmt v = (case v of Str s \<Rightarrow> s | Null \<Rightarrow> ''nan'' | _ \<Rightarrow> fmt v)"

section \<open>The environment of a run\<close>

text \<open>
  What the code reads from outside itself: the two files, the credential in the process
  environment, the external provider (a ticker and a start date in, a table or an exception
  out; its first argument is the token the client logged in with, if it did), the clock,
  and three behaviours of the libraries that the code relies on and the repository does not
  pin: how \<^verbatim>\<open>pd.to_datetime\<close> reads a text or a number (seconds since the epoch, or
  nothing when it raises), what \<^verbatim>\<open>str\<close> prints for a number or a date, and whether
  \<^verbatim>\<open>pct_change\<close> forward-fills missing values before dividing (its default up to
  pandas 2, no longer in pandas 3).
\<close>

datatype artifact = Unreadable | Workbook "(string \<times> frame) list"

record world =
  read_csv :: "string \<Rightarrow> error + frame"
  files :: "string \<Rightarrow> artifact option"
  token :: "string option"
  provider :: "string option \<Rightarrow> string \<Rightarrow> int \<times> int \<times> int \<Rightarrow> error + frame"
  today :: "int \<times> int \<times> int"
  parse_datetime :: "cell \<Rightarrow> int option"
  py_str :: "cell \<Rightarrow> string"
  pct_fill :: bool

definition login :: "world \<Rightarrow> string option" where
  \<comment> \<open>\<^verbatim>\<open>if token: dl.login_by_token(api_token=token)\<close>: an empty token is no token\<close>
  "login w = (case token w of None \<Rightarrow> None | Some tk \<Rightarrow> if tk = [] then None else Some tk)"

section \<open>Registry Loader: \<^verbatim>\<open>load_groups\<close>\<close>





section \<open>Dates\<close>

fun to_datetime_cell :: "world \<Rightarrow> cell \<Rightarrow> error + cell" where
  "to_datetime_cell w Null = Inr Null"
| "to_datetime_cell w (Stamp t) = Inr (Stamp t)"
| "to_datetime_cell w (Date d) = Inr (Stamp (d * 86400))"
| "to_datetime_cell w v = (case parse_datetime w v of None \<Rightarrow> Inl ValueError | Some t \<Rightarrow> Inr (Stamp t))"

fun to_datetime :: "world \<Rightarrow> cell list \<Rightarrow> error + cell list" where
  "to_datetime w [] = Inr []"
| "to_datetime w (v # vs) =
     (case to_datetime_cell w v of Inl e \<Rightarrow> Inl e | Inr t \<Rightarrow>
     (case to_datetime w vs of Inl e \<Rightarrow> Inl e | Inr ts \<Rightarrow> Inr (t # ts)))"

fun dt_date :: "cell \<Rightarrow> cell" where
  \<comment> \<open>\<^verbatim>\<open>.dt.date\<close>: the time of day is dropped\<close>
  "dt_date (Stamp t) = Date (t div 86400)"
| "dt_date v = v"

definition date_column_to_date :: "world \<Rightarrow> frame \<Rightarrow> error + frame" where
  \<comment> \<open>\<^verbatim>\<open>df["date"] = pd.to_datetime(df["date"]).dt.date\<close>\<close>
  "date_column_to_date w df =
     (case getitem df ''date'' of Inl e \<Rightarrow> Inl e | Inr col \<Rightarrow>
     (case to_datetime w col of Inl e \<Rightarrow> Inl e | Inr ts \<Rightarrow>
      Inr (setitem ''date'' (map dt_date ts) df)))"

section \<open>Cache Reader: \<^verbatim>\<open>load_excel_dashboard\<close>\<close>

fun load_sheets :: "world \<Rightarrow> (string \<times> frame) list \<Rightarrow> (string \<rightharpoonup> frame) \<Rightarrow> error + (string \<rightharpoonup> frame)" where
  "load_sheets w [] sheets = Inr sheets"
| "load_sheets w ((sheet, df) # rest) sheets =
     (if set canonical \<subseteq> set (columns df)
      then (case date_column_to_date w df of Inl e \<Rightarrow> Inl e | Inr df' \<Rightarrow>
              load_sheets w rest (sheets(sheet \<mapsto> df')))
      else load_sheets w rest sheets)"

definition load_excel_dashboard :: "world \<Rightarrow> string \<Rightarrow> error + (string \<rightharpoonup> frame)" where
  "load_excel_dashboard w xlsx_path =
     (case files w xlsx_path of
        None \<Rightarrow> Inr Map.empty
      | Some Unreadable \<Rightarrow> Inl ReadError
      | Some (Workbook xls) \<Rightarrow> load_sheets w xls Map.empty)"

section \<open>Sorting\<close>

text \<open>
  \<^verbatim>\<open>sort_values\<close> orders text by code point, numbers by value, dates and timestamps by
  time, and puts missing values last. Cells of two kinds in one key column cannot be
  ordered: Python raises TypeError. Ties keep their order (for several keys pandas sorts
  stably; for one key the order of ties is not promised by pandas, and nothing below
  depends on it).
\<close>

datatype kind = KStr | KNum | KDate | KStamp

fun kind_of :: "cell \<Rightarrow> kind option" where
  "kind_of Null = None"
| "kind_of (Str s) = Some KStr"
| "kind_of (Num q) = Some KNum"
| "kind_of (Inf b) = Some KNum"
| "kind_of (Date d) = Some KDate"
| "kind_of (Stamp t) = Some KStamp"

definition comparable :: "cell list \<Rightarrow> bool" where
  "comparable vs = (length (remdups (filter (\<lambda>k. k \<noteq> None) (map kind_of vs))) \<le> 1)"

fun cell_key :: "cell \<Rightarrow> nat \<times> string \<times> rat \<times> int" where
  "cell_key (Str s) = (0, s, 0, 0)"
| "cell_key (Inf False) = (1, [], 0, 0)"
| "cell_key (Num q) = (2, [], q, 0)"
| "cell_key (Inf True) = (3, [], 0, 0)"
| "cell_key (Date d) = (4, [], 0, d)"
| "cell_key (Stamp t) = (5, [], 0, t)"
| "cell_key Null = (6, [], 0, 0)"

definition sort_values :: "string list \<Rightarrow> frame \<Rightarrow> error + frame" where
  "sort_values keys df =
     (if \<not> set keys \<subseteq> set (columns df) then Inl KeyError
      else if \<not> list_all (\<lambda>c. comparable (map (\<lambda>r. cell_get r c) (rows df))) keys then Inl TypeError
      else Inr (df\<lparr>rows := sort_key (\<lambda>r. map (\<lambda>c. cell_key (cell_get r c)) keys) (rows df)\<rparr>))"

section \<open>Live Fetcher: \<^verbatim>\<open>fetch_monthly_revenue_finmind\<close>\<close>

definition rename_label :: "string \<Rightarrow> string" where
  "rename_label c =
     (if c = ''stock_id'' then ''ticker''
      else if c = ''Revenue'' then ''revenue''
      else if c = ''stock_name'' then ''name''
      else c)"

definition rename_columns :: "frame \<Rightarrow> frame" where
  "rename_columns df =
     \<lparr>columns = map rename_label (columns df),
      rows = map (map (\<lambda>(c, v). (rename_label c, v))) (rows df)\<rparr>"

definition name_map :: "world \<Rightarrow> frame \<Rightarrow> error + (cell \<rightharpoonup> cell)" where
  \<comment> \<open>\<^verbatim>\<open>groups_df.set_index("ticker")["name"].astype(str).to_dict()\<close>: the last row of a
      ticker wins\<close>
  "name_map w groups_df =
     (if ''ticker'' \<in> set (columns groups_df) \<and> ''name'' \<in> set (columns groups_df)
      then Inr (map_of (rev (map (\<lambda>r. (cell_get r ''ticker'', Str (astype_str (py_str w) (cell_get r ''name''))))
                                 (rows groups_df))))
      else Inl KeyError)"

definition map_names :: "(cell \<rightharpoonup> cell) \<Rightarrow> frame \<Rightarrow> frame" where
  \<comment> \<open>\<^verbatim>\<open>out["name"] = out["ticker"].map(name_map)\<close>\<close>
  "map_names nm out =
     setitem ''name''
       (map (\<lambda>r. case nm (cell_get r ''ticker'') of None \<Rightarrow> Null | Some n \<Rightarrow> n) (rows out)) out"

definition name_missing :: "frame \<Rightarrow> bool" where
  \<comment> \<open>\<^verbatim>\<open>"name" not in out.columns or out["name"].isna().all()\<close>\<close>
  "name_missing out =
     (''name'' \<notin> set (columns out) \<or> list_all (\<lambda>r. cell_get r ''name'' = Null) (rows out))"

definition fill_missing :: "string \<Rightarrow> frame \<Rightarrow> frame" where
  \<comment> \<open>\<^verbatim>\<open>if c not in out.columns: out[c] = np.nan\<close>\<close>
  "fill_missing c out =
     (if c \<notin> set (columns out) then setitem c (map (\<lambda>r. Null) (rows out)) out else out)"

definition fetch_monthly_revenue_finmind :: "world \<Rightarrow> frame \<Rightarrow> cell \<Rightarrow> int \<Rightarrow> error + frame" where
  \<comment> \<open>\<open>groups_df\<close> is the module's global of that name\<close>
  "fetch_monthly_revenue_finmind w groups_df ticker years =
     (case provider w (login w) (astype_str (py_str w) ticker) (2023, 1, 1) of Inl e \<Rightarrow> Inl e | Inr raw \<Rightarrow>
        if is_empty raw then Inr (empty_frame canonical)
        else
          (let out = rename_columns raw in
           case getitem out ''ticker'' of Inl e \<Rightarrow> Inl e | Inr tk \<Rightarrow>
          (let out = setitem ''ticker'' (map (\<lambda>v. Str (astype_str (py_str w) v)) tk) out in
           case date_column_to_date w out of Inl e \<Rightarrow> Inl e | Inr out \<Rightarrow>
          (case name_map w groups_df of Inl e \<Rightarrow> Inl e | Inr nm \<Rightarrow>
          (let out = (if name_missing out then map_names nm out else out);
               out = fold fill_missing canonical out in
           case select canonical out of Inl e \<Rightarrow> Inl e | Inr out \<Rightarrow>
           sort_values [''date''] out)))))"

section \<open>Sector Data Resolver: \<^verbatim>\<open>get_sector_data\<close>\<close>

definition SHEET_NAME_FALLBACK :: string where
  \<comment> \<open>the three characters of the source's constant, in UTF-8\<close>
  "SHEET_NAME_FALLBACK =
     [CHR 0xE9, CHR 0x80, CHR 0xA3, CHR 0xE6, CHR 0x8E, CHR 0xA5, CHR 0xE5, CHR 0x99, CHR 0xA8]"

fun unique :: "'a list \<Rightarrow> 'a list" where
  \<comment> \<open>\<^verbatim>\<open>Series.unique()\<close>: in order of first appearance\<close>
  "unique [] = []"
| "unique (x # xs) = x # unique (removeAll x xs)"

definition query_eq :: "string \<Rightarrow> cell \<Rightarrow> frame \<Rightarrow> error + frame" where
  \<comment> \<open>\<^verbatim>\<open>df.query("c == @v")\<close>; a missing value equals nothing\<close>
  "query_eq c v df =
     (if c \<in> set (columns df)
      then Inr (df\<lparr>rows := filter (\<lambda>r. v \<noteq> Null \<and> cell_get r c = v) (rows df)\<rparr>)
      else Inl UndefinedVariableError)"

definition query_in :: "string \<Rightarrow> cell list \<Rightarrow> frame \<Rightarrow> error + frame" where
  \<comment> \<open>\<^verbatim>\<open>df.query("c in @vs")\<close>\<close>
  "query_in c vs df =
     (if c \<in> set (columns df)
      then Inr (df\<lparr>rows := filter (\<lambda>r. cell_get r c \<in> set vs) (rows df)\<rparr>)
      else Inl UndefinedVariableError)"

definition pd_concat :: "frame list \<Rightarrow> frame" where
  \<comment> \<open>\<^verbatim>\<open>pd.concat(frames)\<close> of at least one table: the union of the labels in order of
      first appearance, a missing value where a table lacks a label\<close>
  "pd_concat fs =
     (let cs = unique (concat (map columns fs))
      in \<lparr>columns = cs,
          rows = concat (map (\<lambda>f. map (\<lambda>r. map (\<lambda>c. (c, cell_get r c)) cs) (rows f)) fs)\<rparr>)"

definition dropna :: "string \<Rightarrow> frame \<Rightarrow> error + frame" where
  \<comment> \<open>\<^verbatim>\<open>df.dropna(subset=[c])\<close>\<close>
  "dropna c df =
     (if c \<in> set (columns df)
      then Inr (df\<lparr>rows := filter (\<lambda>r. cell_get r c \<noteq> Null) (rows df)\<rparr>)
      else Inl KeyError)"

definition sector_tickers :: "string \<Rightarrow> frame \<Rightarrow> error + cell list" where
  \<comment> \<open>\<^verbatim>\<open>groups.query("sector == @sector")["ticker"].unique().tolist()\<close>\<close>
  "sector_tickers sector groups =
     (case query_eq ''sector'' (Str sector) groups of Inl e \<Rightarrow> Inl e | Inr g \<Rightarrow>
     (case getitem g ''ticker'' of Inl e \<Rightarrow> Inl e | Inr col \<Rightarrow> Inr (unique col)))"

definition cached_frames :: "string \<Rightarrow> cell list \<Rightarrow> (string \<rightharpoonup> frame) \<Rightarrow> error + frame list" where
  \<comment> \<open>the sector's own sheet, or else the fallback sheet, filtered to the sector's tickers\<close>
  "cached_frames sector tickers excel_sheets =
     (case excel_sheets sector of
        Some sh \<Rightarrow> (case query_in ''ticker'' tickers sh of Inl e \<Rightarrow> Inl e | Inr f \<Rightarrow> Inr [f])
      | None \<Rightarrow>
         (case excel_sheets SHEET_NAME_FALLBACK of
            Some sh \<Rightarrow> (case query_in ''ticker'' tickers sh of Inl e \<Rightarrow> Inl e | Inr f \<Rightarrow> Inr [f])
          | None \<Rightarrow> Inr []))"

definition uncovered :: "cell list \<Rightarrow> frame list \<Rightarrow> error + cell list" where
  \<comment> \<open>\<^verbatim>\<open>have = set(pd.concat(frames)["ticker"]) if frames else set()\<close>, then
      \<^verbatim>\<open>need = [t for t in tickers if t not in have]\<close>\<close>
  "uncovered tickers frames =
     (case (if frames = [] then Inr [] else getitem (pd_concat frames) ''ticker'') of
        Inl e \<Rightarrow> Inl e
      | Inr have \<Rightarrow> Inr (filter (\<lambda>t. t \<notin> set have) tickers))"

fun fetch_each :: "(cell \<Rightarrow> error + frame) \<Rightarrow> cell list \<Rightarrow> error + frame list" where
  \<comment> \<open>\<^verbatim>\<open>for t in need: frames.append(fetch(t))\<close>: the first exception ends the loop\<close>
  "fetch_each fetch [] = Inr []"
| "fetch_each fetch (t # ts) =
     (case fetch t of Inl e \<Rightarrow> Inl e | Inr f \<Rightarrow>
     (case fetch_each fetch ts of Inl e \<Rightarrow> Inl e | Inr fs \<Rightarrow> Inr (f # fs)))"

definition get_sector_data :: "world \<Rightarrow> frame \<Rightarrow> string \<Rightarrow> frame \<Rightarrow> (string \<rightharpoonup> frame) \<Rightarrow> error + frame" where
  \<comment> \<open>the second argument is the global \<open>groups_df\<close> that the Live Fetcher reads; the
      application passes the same table as \<open>groups\<close>\<close>
  "get_sector_data w groups_df sector groups excel_sheets =
     (case sector_tickers sector groups of Inl e \<Rightarrow> Inl e | Inr tickers \<Rightarrow>
     (case cached_frames sector tickers excel_sheets of Inl e \<Rightarrow> Inl e | Inr cached \<Rightarrow>
     (case uncovered tickers cached of Inl e \<Rightarrow> Inl e | Inr need \<Rightarrow>
     (case fetch_each (\<lambda>t. fetch_monthly_revenue_finmind w groups_df t 3) need of Inl e \<Rightarrow> Inl e | Inr live \<Rightarrow>
        if cached @ live = [] then Inr (empty_frame canonical)
        else
          (case dropna ''date'' (pd_concat (cached @ live)) of Inl e \<Rightarrow> Inl e | Inr df \<Rightarrow>
           sort_values [''ticker'', ''date''] df)))))"

section \<open>KPI Enricher: \<^verbatim>\<open>enrich_kpi\<close>\<close>

text \<open>
  Float division as pandas exposes it: a missing operand gives a missing result, a non-zero
  number over zero gives an infinity, zero over zero gives a missing value, and nothing
  raises. (The sign of a float zero is not modelled: zero is taken as positive.)
\<close>

fun fdiv :: "cell \<Rightarrow> cell \<Rightarrow> cell" where
  "fdiv (Num a) (Num b) = (if b \<noteq> 0 then Num (a / b) else if a = 0 then Null else Inf (0 < a))"
| "fdiv (Num a) (Inf s) = Num 0"
| "fdiv (Inf s) (Num b) = Inf (if 0 \<le> b then s else \<not> s)"
| "fdiv a b = Null"

fun minus_one :: "cell \<Rightarrow> cell" where
  "minus_one (Num a) = Num (a - 1)"
| "minus_one (Inf s) = Inf s"
| "minus_one v = Null"

fun ffill :: "cell \<Rightarrow> cell list \<Rightarrow> cell list" where
  \<comment> \<open>forward fill, carrying the last value seen\<close>
  "ffill prev [] = []"
| "ffill prev (v # vs) = (if v = Null then prev # ffill prev vs else v # ffill v vs)"

definition pct_change :: "bool \<Rightarrow> nat \<Rightarrow> cell list \<Rightarrow> cell list" where
  \<comment> \<open>\<^verbatim>\<open>Series.pct_change(periods)\<close>: \<^verbatim>\<open>filled / filled.shift(periods) - 1\<close>\<close>
  "pct_change fill periods vs =
     (let filled = (if fill then ffill Null vs else vs);
          shifted = replicate periods Null @ filled
      in map (\<lambda>(a, b). minus_one (fdiv a b)) (zip filled shifted))"

fun numeric :: "cell \<Rightarrow> bool" where
  "numeric (Str s) = False"
| "numeric (Date d) = False"
| "numeric (Stamp t) = False"
| "numeric v = True"

definition group_pct_change :: "bool \<Rightarrow> nat \<Rightarrow> cell list \<Rightarrow> cell list \<Rightarrow> error + cell list" where
  \<comment> \<open>the keys and the values of the rows, in row order: each row gets the value that
      \<^verbatim>\<open>pct_change\<close> gives it within the rows of its own key, at its position among them;
      rows with a missing key belong to no group; dividing a text or a date raises\<close>
  "group_pct_change fill periods ks vs =
     (if \<not> list_all numeric (map snd (filter (\<lambda>(k, v). k \<noteq> Null) (zip ks vs))) then Inl TypeError
      else Inr (map (\<lambda>i. if ks ! i = Null then Null
                          else pct_change fill periods
                                 (map snd (filter (\<lambda>(k, v). k = ks ! i) (zip ks vs)))
                               ! length (filter (\<lambda>k. k = ks ! i) (take i ks)))
                    [0..<length ks]))"

definition groupby_pct_change :: "bool \<Rightarrow> string \<Rightarrow> string \<Rightarrow> nat \<Rightarrow> frame \<Rightarrow> error + cell list" where
  \<comment> \<open>\<^verbatim>\<open>df.groupby(key)[col].pct_change(periods)\<close>\<close>
  "groupby_pct_change fill key col periods df =
     (if key \<notin> set (columns df) \<or> col \<notin> set (columns df) then Inl KeyError
      else group_pct_change fill periods
             (map (\<lambda>r. cell_get r key) (rows df)) (map (\<lambda>r. cell_get r col) (rows df)))"

definition enrich_kpi :: "world \<Rightarrow> frame \<Rightarrow> error + frame" where
  "enrich_kpi w df =
     (if is_empty df then Inr df
      else
        (case getitem df ''date'' of Inl e \<Rightarrow> Inl e | Inr col \<Rightarrow>
        (case to_datetime w col of Inl e \<Rightarrow> Inl e | Inr ts \<Rightarrow>
        (case sort_values [''ticker'', ''date''] (setitem ''date'' ts df) of Inl e \<Rightarrow> Inl e | Inr df \<Rightarrow>
        (case groupby_pct_change (pct_fill w) ''ticker'' ''revenue'' 1 df of Inl e \<Rightarrow> Inl e | Inr mom \<Rightarrow>
        (let df = setitem ''revenue_mom'' mom df in
         case groupby_pct_change (pct_fill w) ''ticker'' ''revenue'' 12 df of Inl e \<Rightarrow> Inl e | Inr yoy \<Rightarrow>
         Inr (setitem ''revenue_yoy'' yoy df)))))))"

section \<open>Batch Refresh: \<^verbatim>\<open>fetch_all\<close> and the script's entry point\<close>

















text \<open>Two notions for the proofs: a cell that is a timestamp or missing, and a label that
  every row of a table has a cell for.\<close>

fun is_stamp :: "cell \<Rightarrow> bool" where
  "is_stamp (Stamp t) = True"
| "is_stamp Null = True"
| "is_stamp v = False"

definition bound :: "string \<Rightarrow> frame \<Rightarrow> bool" where
  "bound c df = list_all (\<lambda>r. map_of r c \<noteq> None) (rows df)"


section \<open>Example runs\<close>

text \<open>
  A registry with two tickers in sector S and one in sector T, and a provider that has two
  months of revenue for A and for B (newest first, as it happens) and nothing for C.
\<close>

definition ex_registry :: frame where
  "ex_registry = table ['' Ticker'', ''Name'', ''Sector '']
     [[Str ''A'', Str ''Alpha  '', Str ''S''],
      [Str ''B'', Str '' Beta'', Str ''S''],
      [Str ''C'', Str ''Gamma'', Str '' T'']]"

definition ex_groups :: frame where
  \<comment> \<open>what \<open>load_groups\<close> makes of \<open>ex_registry\<close>\<close>
  "ex_groups = table [''ticker'', ''name'', ''sector'']
     [[Str ''A'', Str ''Alpha'', Str ''S''],
      [Str ''B'', Str ''Beta'', Str ''S''],
      [Str ''C'', Str ''Gamma'', Str ''T'']]"

definition ex_answer :: "string \<Rightarrow> frame" where
  "ex_answer t = table [''date'', ''stock_id'', ''revenue'']
     [[Date 19389, Str t, Num 110], [Date 19358, Str t, Num 100]]"

definition ex_world :: world where
  "ex_world =
     \<lparr>read_csv = (\<lambda>p. if p = ''groups.csv'' then Inr ex_registry else Inl ReadError),
      files = (\<lambda>p. None),
      token = None,
      provider = (\<lambda>tk t start. if t = ''C'' then Inr (empty_frame []) else Inr (ex_answer t)),
      today = (2026, 11, 3),
      parse_datetime = (\<lambda>v. None),
      py_str = (\<lambda>v. ''?''),
      pct_fill = True\<rparr>"

definition ex_faulty :: world where
  \<comment> \<open>the same, except that the provider's call for A raises\<close>
  "ex_faulty =
     ex_world\<lparr>provider := (\<lambda>tk t start. if t = ''A'' then Inl (ProviderFault 503) else Inr (ex_answer t))\<rparr>"

definition ex_undated :: world where
  \<comment> \<open>the same, except that the provider's tables have no date column\<close>
  "ex_undated =
     ex_world\<lparr>provider := (\<lambda>tk t start. Inr (table [''stock_id'', ''revenue''] [[Str t, Num 100]]))\<rparr>"

text \<open>
  A cache artifact with one sheet for sector S, which covers ticker A only, holds one of
  A's months twice and carries a stray ticker Z and an extra column; its second sheet is
  not a revenue sheet. \<open>ex_sheets\<close> is what the Cache Reader makes of it, and
  \<open>ex_resolved\<close> what the resolver then returns for S.
\<close>

definition ex_workbook :: "(string \<times> frame) list" where
  "ex_workbook =
     [(''S'', table [''ticker'', ''name'', ''date'', ''revenue'', ''note'']
        [[Str ''A'', Str ''Alpha'', Stamp 1675213200, Num 110, Null],
         [Str ''A'', Str ''Alpha'', Stamp 1672531200, Num 100, Null],
         [Str ''A'', Str ''Alpha'', Stamp 1672531200, Num 100, Str ''again''],
         [Str ''Z'', Str ''Zeta'', Stamp 1672531200, Num 7, Null]]),
      (''memo'', table [''ticker'', ''text''] [[Str ''A'', Str ''checked'']])]"

definition ex_sheets :: "string \<rightharpoonup> frame" where
  "ex_sheets =
     [''S'' \<mapsto> table [''ticker'', ''name'', ''date'', ''revenue'', ''note'']
        [[Str ''A'', Str ''Alpha'', Date 19389, Num 110, Null],
         [Str ''A'', Str ''Alpha'', Date 19358, Num 100, Null],
         [Str ''A'', Str ''Alpha'', Date 19358, Num 100, Str ''again''],
         [Str ''Z'', Str ''Zeta'', Date 19358, Num 7, Null]]]"

definition ex_cached :: world where
  "ex_cached =
     ex_world\<lparr>files := (\<lambda>p. if p = ''sector_dashboard.xlsx'' then Some (Workbook ex_workbook) else None)\<rparr>"


definition ex_no_groups :: frame where
  \<comment> \<open>a registry without rows\<close>
  "ex_no_groups = table [''ticker'', ''name'', ''sector''] []"






definition ex_zero :: frame where
  "ex_zero = table [''ticker'', ''name'', ''date'', ''revenue'']
     [[Str ''Z'', Str ''Zeta'', Date 19358, Num 0],
      [Str ''Z'', Str ''Zeta'', Date 19389, Num 5],
      [Str ''Z'', Str ''Zeta'', Date 19417, Num 0],
      [Str ''Z'', Str ''Zeta'', Date 19448, Num 0]]"


definition ex_zero_enriched :: frame where
  \<comment> \<open>what the enricher makes of \<open>ex_zero\<close>\<close>
  "ex_zero_enriched = table [''ticker'', ''name'', ''date'', ''revenue'', ''revenue_mom'', ''revenue_yoy'']
     [[Str ''Z'', Str ''Zeta'', Stamp 1672531200, Num 0, Null, Null],
      [Str ''Z'', Str ''Zeta'', Stamp 1675209600, Num 5, Inf True, Null],
      [Str ''Z'', Str ''Zeta'', Stamp 1677628800, Num 0, Num (- 1), Null],
      [Str ''Z'', Str ''Zeta'', Stamp 1680307200, Num 0, Null, Null]]"

section \<open>Properties of the Registry Loader\<close>




lemma zip_map_self: "zip xs (map f xs) = map (\<lambda>x. (x, f x)) xs"
  by (induction xs) auto

lemma setitem_map:
  "setitem c (map f (rows df)) df =
     \<lparr>columns = (if c \<in> set (columns df) then columns df else columns df @ [c]),
      rows = map (\<lambda>r. AList.update c (f r) r) (rows df)\<rparr>"
  by (simp add: setitem_def zip_map_self)

lemma cell_get_update:
  "cell_get (AList.update k v r) c = (if c = k then v else cell_get r c)"
  by (simp add: cell_get_def update_conv')





section \<open>Properties of the Live Fetcher\<close>

text \<open>
  C10. The lookback argument of the interactive Live Fetcher has no effect: the start date
  handed to the provider is the fixed 2023-01-01, so any two values of \<open>years\<close> give the
  same result for every ticker.
\<close>

theorem fetch_ignores_years:
  "fetch_monthly_revenue_finmind w groups_df ticker y1 = fetch_monthly_revenue_finmind w groups_df ticker y2"
  by (simp add: fetch_monthly_revenue_finmind_def)

theorem fetch_ignores_years_witness:
  "fetch_monthly_revenue_finmind ex_world ex_groups (Str ''B'') 1 =
     Inr (table canonical
            [[Str ''B'', Str ''Beta'', Date 19358, Num 100], [Str ''B'', Str ''Beta'', Date 19389, Num 110]])
   \<and> fetch_monthly_revenue_finmind ex_world ex_groups (Str ''B'') 1 =
     fetch_monthly_revenue_finmind ex_world ex_groups (Str ''B'') 10"
proof -
  have "fetch_monthly_revenue_finmind ex_world ex_groups (Str ''B'') 1 =
     Inr (table canonical
            [[Str ''B'', Str ''Beta'', Date 19358, Num 100], [Str ''B'', Str ''Beta'', Date 19389, Num 110]])"
    by code_simp
  then show ?thesis
    using fetch_ignores_years [of ex_world ex_groups "Str ''B''" 1 10] by simp
qed

text \<open>
  C7 at a provider table without a date column. The claim promises that a missing
  canonical column is added and filled with nulls; the loop under the source's comment
  "guarantee the columns are complete" would do so, but line 69 has already read
  \<^verbatim>\<open>out["date"]\<close> by then, and the call ends in KeyError. (Line 68 does the same for a
  table without a ticker column.)
\<close>

theorem fetch_without_date_raises:
  "fetch_monthly_revenue_finmind ex_undated ex_groups (Str ''B'') 3 = Inl KeyError"
  by code_simp

section \<open>Properties of the Cache Reader\<close>

lemma set_unique: "set (unique xs) = set xs"
  by (induction xs rule: unique.induct) auto

lemma date_column_to_date_columns:
  "date_column_to_date w df = Inr df' \<Longrightarrow> columns df' = columns df"
  by (auto simp: date_column_to_date_def getitem_def setitem_def split: sum.splits if_splits)

lemma load_sheets_dom:
  "load_sheets w xls acc = Inr m \<Longrightarrow>
   (name \<in> dom m \<longleftrightarrow> name \<in> dom acc \<or> (\<exists>df. (name, df) \<in> set xls \<and> set canonical \<subseteq> set (columns df)))"
proof (induction xls arbitrary: acc)
  case Nil
  then show ?case by auto
next
  case (Cons x xls)
  obtain sheet df where x: "x = (sheet, df)" by (cases x)
  show ?case
  proof (cases "set canonical \<subseteq> set (columns df)")
    case True
    with Cons.prems x obtain df' where d: "date_column_to_date w df = Inr df'"
      and l: "load_sheets w xls (acc(sheet \<mapsto> df')) = Inr m"
      by (auto split: sum.splits)
    from Cons.IH [OF l] have "name \<in> dom m \<longleftrightarrow>
        name = sheet \<or> name \<in> dom acc \<or> (\<exists>df. (name, df) \<in> set xls \<and> set canonical \<subseteq> set (columns df))"
      by (auto simp: dom_def)
    with True x show ?thesis by auto
  next
    case False
    with Cons.prems x have l: "load_sheets w xls acc = Inr m" by simp
    from Cons.IH [OF l] False x show ?thesis by auto
  qed
qed

lemma load_sheets_columns:
  "load_sheets w xls acc = Inr m \<Longrightarrow> m name = Some df \<Longrightarrow>
   (\<And>n d. acc n = Some d \<Longrightarrow> set canonical \<subseteq> set (columns d)) \<Longrightarrow>
   set canonical \<subseteq> set (columns df)"
proof (induction xls arbitrary: acc)
  case Nil
  then show ?case by auto
next
  case (Cons x xls)
  obtain sheet df0 where x: "x = (sheet, df0)" by (cases x)
  show ?case
  proof (cases "set canonical \<subseteq> set (columns df0)")
    case True
    with Cons.prems(1) x obtain df' where d: "date_column_to_date w df0 = Inr df'"
      and l: "load_sheets w xls (acc(sheet \<mapsto> df')) = Inr m"
      by (auto split: sum.splits)
    have "columns df' = columns df0" using d by (rule date_column_to_date_columns)
    with True Cons.prems(3) have "\<And>n d. (acc(sheet \<mapsto> df')) n = Some d \<Longrightarrow> set canonical \<subseteq> set (columns d)"
      by (auto split: if_splits)
    from Cons.IH [OF l Cons.prems(2) this] show ?thesis .
  next
    case False
    with Cons.prems x have l: "load_sheets w xls acc = Inr m" by simp
    from Cons.IH [OF l Cons.prems(2) Cons.prems(3)] show ?thesis .
  qed
qed

lemma loaded_sheet_columns:
  "load_excel_dashboard w xlsx_path = Inr sheets \<Longrightarrow> sheets name = Some df \<Longrightarrow>
   set canonical \<subseteq> set (columns df)"
  by (auto simp: load_excel_dashboard_def split: option.splits artifact.splits dest: load_sheets_columns)

lemma ex_sheets_loaded: "load_excel_dashboard ex_cached ''sector_dashboard.xlsx'' = Inr ex_sheets"
  by (simp add: load_excel_dashboard_def ex_cached_def ex_world_def ex_workbook_def ex_sheets_def
      table_def canonical_def date_column_to_date_def getitem_def setitem_def cell_get_def)

text \<open>
  C5. When the cache artifact does not exist, the Cache Reader returns the empty mapping
  and raises nothing. When it exists and is read, a sheet name is in the mapping exactly
  when the artifact has a sheet of that name whose labels include ticker, name, date and
  revenue; in particular a sheet is included only if its labels are a superset of the four.
\<close>

theorem cache_reader:
  "(files w xlsx_path = None \<longrightarrow> load_excel_dashboard w xlsx_path = Inr Map.empty) \<and>
   (\<forall>xls sheets name.
      files w xlsx_path = Some (Workbook xls) \<longrightarrow> load_excel_dashboard w xlsx_path = Inr sheets \<longrightarrow>
      (name \<in> dom sheets \<longleftrightarrow> (\<exists>df. (name, df) \<in> set xls \<and> set canonical \<subseteq> set (columns df))))"
  by (auto simp: load_excel_dashboard_def dest: load_sheets_dom)

theorem cache_reader_witness:
  "files ex_world ''sector_dashboard.xlsx'' = None
   \<and> load_excel_dashboard ex_world ''sector_dashboard.xlsx'' = Inr Map.empty
   \<and> files ex_cached ''sector_dashboard.xlsx'' = Some (Workbook ex_workbook)
   \<and> load_excel_dashboard ex_cached ''sector_dashboard.xlsx'' = Inr ex_sheets
   \<and> ''S'' \<in> dom ex_sheets
   \<and> ''memo'' \<notin> dom ex_sheets"
proof -
  have 1: "files ex_world ''sector_dashboard.xlsx'' = None"
    by (simp add: ex_world_def)
  have 2: "files ex_cached ''sector_dashboard.xlsx'' = Some (Workbook ex_workbook)"
    by (simp add: ex_cached_def)
  note 3 = ex_sheets_loaded
  have 4: "\<exists>df. (''S'', df) \<in> set ex_workbook \<and> set canonical \<subseteq> set (columns df)"
    by (simp add: ex_workbook_def table_def canonical_def)
  have 5: "\<not> (\<exists>df. (''memo'', df) \<in> set ex_workbook \<and> set canonical \<subseteq> set (columns df))"
    by (simp add: ex_workbook_def table_def canonical_def)
  from cache_reader [of ex_world "''sector_dashboard.xlsx''"] 1
  have a: "load_excel_dashboard ex_world ''sector_dashboard.xlsx'' = Inr Map.empty"
    by blast
  from cache_reader [of ex_cached "''sector_dashboard.xlsx''"] 2 3 4
  have b: "''S'' \<in> dom ex_sheets"
    by blast
  from cache_reader [of ex_cached "''sector_dashboard.xlsx''"] 2 3 5
  have c: "''memo'' \<notin> dom ex_sheets"
    by blast
  from 1 a 2 3 b c show ?thesis by blast
qed

section \<open>Properties of the Sector Data Resolver\<close>

lemma fetch_each_fault:
  "t \<in> set ts \<Longrightarrow> fetch t = Inl e \<Longrightarrow> \<exists>e'. fetch_each fetch ts = Inl e'"
  by (induction ts) (auto split: sum.splits)

lemma fetch_provider_fault:
  "provider w (login w) (astype_str (py_str w) t) (2023, 1, 1) = Inl e
   \<Longrightarrow> fetch_monthly_revenue_finmind w groups_df t years = Inl e"
  by (simp add: fetch_monthly_revenue_finmind_def)

text \<open>
  C1 as stated fails: with A and B in sector S, no cache, and a provider that raises for A
  and has rows for B, resolution of S ends in the provider's exception; B's rows are not
  returned.
\<close>

theorem resolver_aborts_on_provider_fault:
  "get_sector_data ex_faulty ex_groups ''S'' ex_groups Map.empty = Inl (ProviderFault 503)"
  by code_simp

text \<open>
  C1, amended. Nothing in the resolver or the fetcher catches an exception. When the
  provider's call raises for a ticker that the cache does not cover, \<open>get_sector_data\<close>
  raises as well and returns no table.
\<close>

theorem resolver_propagates_provider_fault:
  assumes "sector_tickers sector groups = Inr tickers"
    and "cached_frames sector tickers excel_sheets = Inr cached"
    and "uncovered tickers cached = Inr need"
    and "t \<in> set need"
    and "provider w (login w) (astype_str (py_str w) t) (2023, 1, 1) = Inl e"
  shows "\<exists>e'. get_sector_data w groups_df sector groups excel_sheets = Inl e'"
proof -
  have "fetch_monthly_revenue_finmind w groups_df t 3 = Inl e"
    using assms(5) by (rule fetch_provider_fault)
  then obtain e' where "fetch_each (\<lambda>t. fetch_monthly_revenue_finmind w groups_df t 3) need = Inl e'"
    using fetch_each_fault [OF assms(4), where fetch = "\<lambda>t. fetch_monthly_revenue_finmind w groups_df t 3"]
    by blast
  then show ?thesis
    using assms(1-3) by (simp add: get_sector_data_def)
qed

theorem resolver_propagates_provider_fault_witness:
  "sector_tickers ''S'' ex_groups = Inr [Str ''A'', Str ''B'']
   \<and> cached_frames ''S'' [Str ''A'', Str ''B''] Map.empty = Inr []
   \<and> uncovered [Str ''A'', Str ''B''] [] = Inr [Str ''A'', Str ''B'']
   \<and> provider ex_faulty (login ex_faulty) (astype_str (py_str ex_faulty) (Str ''A'')) (2023, 1, 1)
       = Inl (ProviderFault 503)
   \<and> (\<exists>e'. get_sector_data ex_faulty ex_groups ''S'' ex_groups Map.empty = Inl e')"
proof -
  have 1: "sector_tickers ''S'' ex_groups = Inr [Str ''A'', Str ''B'']"
    by code_simp
  have 2: "cached_frames ''S'' [Str ''A'', Str ''B''] Map.empty = Inr []"
    by code_simp
  have 3: "uncovered [Str ''A'', Str ''B''] [] = Inr [Str ''A'', Str ''B'']"
    by code_simp
  have 4: "Str ''A'' \<in> set [Str ''A'', Str ''B'']"
    by simp
  have 5: "provider ex_faulty (login ex_faulty) (astype_str (py_str ex_faulty) (Str ''A'')) (2023, 1, 1)
       = Inl (ProviderFault 503)"
    by code_simp
  show ?thesis
    using resolver_propagates_provider_fault [OF 1 2 3 4 5] 1 2 3 5 by blast
qed

lemma pd_concat_no_rows:
  "rows f = [] \<Longrightarrow> pd_concat [f] = \<lparr>columns = unique (columns f), rows = []\<rparr>"
  by (simp add: pd_concat_def)

lemma resolve_no_rows:
  assumes "set canonical \<subseteq> set (columns sh)"
  shows "(case dropna ''date'' (pd_concat [sh\<lparr>rows := []\<rparr>]) of Inl e \<Rightarrow> Inl e
          | Inr df \<Rightarrow> sort_values [''ticker'', ''date''] df)
         = Inr \<lparr>columns = unique (columns sh), rows = []\<rparr>"
  using assms
  by (simp add: pd_concat_no_rows dropna_def sort_values_def set_unique canonical_def comparable_def)

lemma uncovered_no_tickers:
  assumes "set canonical \<subseteq> set (columns sh)"
  shows "uncovered [] [sh\<lparr>rows := []\<rparr>] = Inr []"
  using assms
  by (simp add: uncovered_def pd_concat_no_rows getitem_def set_unique canonical_def)

lemma cached_frames_no_tickers:
  assumes "load_excel_dashboard w xlsx_path = Inr excel_sheets"
  shows "cached_frames sector [] excel_sheets = Inr [] \<or>
         (\<exists>sh. set canonical \<subseteq> set (columns sh) \<and> cached_frames sector [] excel_sheets = Inr [sh\<lparr>rows := []\<rparr>])"
proof -
  have c: "\<And>name sh. excel_sheets name = Some sh \<Longrightarrow> set canonical \<subseteq> set (columns sh)"
    using assms by (rule loaded_sheet_columns)
  have q: "\<And>name sh. excel_sheets name = Some sh \<Longrightarrow> query_in ''ticker'' [] sh = Inr (sh\<lparr>rows := []\<rparr>)"
    using c by (fastforce simp: query_in_def canonical_def)
  show ?thesis
    using c q by (auto simp: cached_frames_def split: option.splits)
qed

text \<open>
  C6. For a sector that has no ticker in the registry, and a cache as the Cache Reader
  returns it (with or without a sheet for the sector, with or without the fallback sheet),
  the resolver raises nothing and returns a table without rows whose labels include
  ticker, name, date and revenue. No live call is made, since there is no ticker to fetch.
\<close>

theorem resolver_empty_sector:
  assumes "sector_tickers sector groups = Inr []"
    and "load_excel_dashboard w xlsx_path = Inr excel_sheets"
  shows "\<exists>df. get_sector_data w groups_df sector groups excel_sheets = Inr df
              \<and> rows df = [] \<and> set canonical \<subseteq> set (columns df)"
proof -
  from cached_frames_no_tickers [OF assms(2), of sector]
  consider "cached_frames sector [] excel_sheets = Inr []"
    | sh where "set canonical \<subseteq> set (columns sh)" "cached_frames sector [] excel_sheets = Inr [sh\<lparr>rows := []\<rparr>]"
    by blast
  then show ?thesis
  proof cases
    case 1
    then have "get_sector_data w groups_df sector groups excel_sheets = Inr (empty_frame canonical)"
      using assms(1) by (simp add: get_sector_data_def uncovered_def)
    then show ?thesis by (simp add: empty_frame_def)
  next
    case 2
    then have "get_sector_data w groups_df sector groups excel_sheets
        = Inr \<lparr>columns = unique (columns sh), rows = []\<rparr>"
      using assms(1) by (simp add: get_sector_data_def uncovered_no_tickers resolve_no_rows)
    then show ?thesis using 2(1) by (simp add: set_unique)
  qed
qed

theorem resolver_empty_sector_witness:
  "sector_tickers ''S'' ex_no_groups = Inr []
   \<and> load_excel_dashboard ex_cached ''sector_dashboard.xlsx'' = Inr ex_sheets
   \<and> sector_tickers ''T'' ex_no_groups = Inr []
   \<and> (\<exists>df. get_sector_data ex_cached ex_no_groups ''S'' ex_no_groups ex_sheets = Inr df
              \<and> rows df = [] \<and> set canonical \<subseteq> set (columns df))
   \<and> (\<exists>df. get_sector_data ex_cached ex_no_groups ''T'' ex_no_groups ex_sheets = Inr df
              \<and> rows df = [] \<and> set canonical \<subseteq> set (columns df))"
proof -
  have 1: "sector_tickers ''S'' ex_no_groups = Inr []"
    by code_simp
  have 2: "sector_tickers ''T'' ex_no_groups = Inr []"
    by code_simp
  show ?thesis
    using resolver_empty_sector [OF 1 ex_sheets_loaded] resolver_empty_sector [OF 2 ex_sheets_loaded] 1 2
      ex_sheets_loaded
    by simp
qed


lemma sort_values_rows:
  "sort_values keys df = Inr df' \<Longrightarrow>
   rows df' = sort_key (\<lambda>r. map (\<lambda>c. cell_key (cell_get r c)) keys) (rows df) \<and> columns df' = columns df"
  by (auto simp: sort_values_def split: if_splits)

lemma two_keys_le:
  "([a, b] \<le> [c, d]) = (a < c \<or> a = c \<and> b \<le> (d :: 'a :: linorder))"
  by auto





section \<open>Properties of the Batch Refresh\<close>










section \<open>Properties of the KPI Enricher\<close>




lemma fdiv_Null_left: "fdiv Null b = Null"
  by simp








lemma to_datetime_length: "to_datetime w vs = Inr ts \<Longrightarrow> length ts = length vs"
  by (induction vs arbitrary: ts) (auto split: sum.splits)

lemma to_datetime_cell_stamp: "to_datetime_cell w v = Inr t \<Longrightarrow> is_stamp t"
  by (cases v) (auto split: option.splits)

lemma to_datetime_stamps: "to_datetime w vs = Inr ts \<Longrightarrow> list_all is_stamp ts"
  by (induction vs arbitrary: ts) (auto split: sum.splits dest: to_datetime_cell_stamp)

lemma to_datetime_cell_fixed: "is_stamp v \<Longrightarrow> to_datetime_cell w v = Inr v"
  by (cases v) simp_all

lemma to_datetime_fixed: "list_all is_stamp vs \<Longrightarrow> to_datetime w vs = Inr vs"
  by (induction vs) (simp_all add: to_datetime_cell_fixed)



lemma column_after_update:
  "length rs = length vs \<Longrightarrow>
   map (\<lambda>r. cell_get r c') (map (\<lambda>(r, v). AList.update c v r) (zip rs vs))
   = (if c' = c then vs else map (\<lambda>r. cell_get r c') rs)"
  by (induction rs vs rule: list_induct2) (auto simp: cell_get_update)

lemma column_setitem:
  "length vs = length (rows df) \<Longrightarrow>
   map (\<lambda>r. cell_get r c') (rows (setitem c vs df))
   = (if c' = c then vs else map (\<lambda>r. cell_get r c') (rows df))"
  using column_after_update [of "rows df" vs c' c] by (simp add: setitem_def del: map_map)

lemma columns_setitem: "set (columns (setitem c vs df)) = insert c (set (columns df))"
  by (auto simp: setitem_def)

lemma length_rows_setitem:
  "length vs = length (rows df) \<Longrightarrow> length (rows (setitem c vs df)) = length (rows df)"
  by (simp add: setitem_def)

lemma group_pct_change_length: "group_pct_change fill p ks vs = Inr R \<Longrightarrow> length R = length ks"
  by (auto simp: group_pct_change_def split: if_splits)

lemma groupby_pct_change_Inr:
  assumes "groupby_pct_change fill key col p df = Inr R"
  shows "key \<in> set (columns df)" "col \<in> set (columns df)"
    "group_pct_change fill p (map (\<lambda>r. cell_get r key) (rows df)) (map (\<lambda>r. cell_get r col) (rows df)) = Inr R"
    "length R = length (rows df)"
  using assms group_pct_change_length [of fill p "map (\<lambda>r. cell_get r key) (rows df)" "map (\<lambda>r. cell_get r col) (rows df)" R]
  by (auto simp: groupby_pct_change_def split: if_splits)

lemma enrich_kpi_Inr:
  assumes "enrich_kpi w df = Inr out" and "\<not> is_empty df"
  obtains ts df2 mom yoy where
    "''date'' \<in> set (columns df)"
    "to_datetime w (map (\<lambda>r. cell_get r ''date'') (rows df)) = Inr ts"
    "sort_values [''ticker'', ''date''] (setitem ''date'' ts df) = Inr df2"
    "groupby_pct_change (pct_fill w) ''ticker'' ''revenue'' 1 df2 = Inr mom"
    "groupby_pct_change (pct_fill w) ''ticker'' ''revenue'' 12 (setitem ''revenue_mom'' mom df2) = Inr yoy"
    "out = setitem ''revenue_yoy'' yoy (setitem ''revenue_mom'' mom df2)"
proof -
  obtain col where 1: "getitem df ''date'' = Inr col"
    using assms by (cases "getitem df ''date''") (simp_all add: enrich_kpi_def)
  then have d: "''date'' \<in> set (columns df)" and col: "col = map (\<lambda>r. cell_get r ''date'') (rows df)"
    by (auto simp: getitem_def split: if_splits)
  obtain ts where 2: "to_datetime w col = Inr ts"
    using assms 1 by (cases "to_datetime w col") (simp_all add: enrich_kpi_def)
  obtain df2 where 3: "sort_values [''ticker'', ''date''] (setitem ''date'' ts df) = Inr df2"
    using assms 1 2 by (cases "sort_values [''ticker'', ''date''] (setitem ''date'' ts df)") (simp_all add: enrich_kpi_def)
  obtain mom where 4: "groupby_pct_change (pct_fill w) ''ticker'' ''revenue'' 1 df2 = Inr mom"
    using assms 1 2 3 by (cases "groupby_pct_change (pct_fill w) ''ticker'' ''revenue'' 1 df2") (simp_all add: enrich_kpi_def)
  obtain yoy where 5: "groupby_pct_change (pct_fill w) ''ticker'' ''revenue'' 12 (setitem ''revenue_mom'' mom df2) = Inr yoy"
    using assms 1 2 3 4
    by (cases "groupby_pct_change (pct_fill w) ''ticker'' ''revenue'' 12 (setitem ''revenue_mom'' mom df2)")
       (simp_all add: enrich_kpi_def Let_def)
  have 6: "out = setitem ''revenue_yoy'' yoy (setitem ''revenue_mom'' mom df2)"
    using assms 1 2 3 4 5 by (simp add: enrich_kpi_def Let_def)
  from d 2 3 4 5 6 show thesis
    unfolding col by (rule that)
qed

lemma enriched_columns:
  assumes m: "groupby_pct_change fill ''ticker'' ''revenue'' 1 df2 = Inr mom"
    and y: "groupby_pct_change fill ''ticker'' ''revenue'' 12 (setitem ''revenue_mom'' mom df2) = Inr yoy"
    and out: "out = setitem ''revenue_yoy'' yoy (setitem ''revenue_mom'' mom df2)"
  shows "map (\<lambda>r. cell_get r ''ticker'') (rows out) = map (\<lambda>r. cell_get r ''ticker'') (rows df2)"
    and "map (\<lambda>r. cell_get r ''revenue'') (rows out) = map (\<lambda>r. cell_get r ''revenue'') (rows df2)"
    and "map (\<lambda>r. cell_get r ''date'') (rows out) = map (\<lambda>r. cell_get r ''date'') (rows df2)"
    and "map (\<lambda>r. cell_get r ''revenue_mom'') (rows out) = mom"
    and "map (\<lambda>r. cell_get r ''revenue_yoy'') (rows out) = yoy"
    and "group_pct_change fill 1 (map (\<lambda>r. cell_get r ''ticker'') (rows df2))
           (map (\<lambda>r. cell_get r ''revenue'') (rows df2)) = Inr mom"
    and "group_pct_change fill 12 (map (\<lambda>r. cell_get r ''ticker'') (rows df2))
           (map (\<lambda>r. cell_get r ''revenue'') (rows df2)) = Inr yoy"
    and "length (rows out) = length (rows df2)"
    and "set (columns out) = insert ''revenue_yoy'' (insert ''revenue_mom'' (set (columns df2)))"
proof -
  let ?df3 = "setitem ''revenue_mom'' mom df2"
  have lm: "length mom = length (rows df2)"
    using m by (rule groupby_pct_change_Inr(4))
  have l3: "length (rows ?df3) = length (rows df2)"
    using lm by (simp add: length_rows_setitem)
  have ly: "length yoy = length (rows ?df3)"
    using y by (rule groupby_pct_change_Inr(4))
  have c3: "\<And>c. map (\<lambda>r. cell_get r c) (rows ?df3)
      = (if c = ''revenue_mom'' then mom else map (\<lambda>r. cell_get r c) (rows df2))"
    using lm by (simp add: column_setitem)
  have c4: "\<And>c. map (\<lambda>r. cell_get r c) (rows out)
      = (if c = ''revenue_yoy'' then yoy else map (\<lambda>r. cell_get r c) (rows ?df3))"
    unfolding out using ly by (simp add: column_setitem)
  show "map (\<lambda>r. cell_get r ''ticker'') (rows out) = map (\<lambda>r. cell_get r ''ticker'') (rows df2)"
    by (simp add: c4 c3)
  show "map (\<lambda>r. cell_get r ''revenue'') (rows out) = map (\<lambda>r. cell_get r ''revenue'') (rows df2)"
    by (simp add: c4 c3)
  show "map (\<lambda>r. cell_get r ''date'') (rows out) = map (\<lambda>r. cell_get r ''date'') (rows df2)"
    by (simp add: c4 c3)
  show "map (\<lambda>r. cell_get r ''revenue_mom'') (rows out) = mom"
    by (simp add: c4 c3)
  show "map (\<lambda>r. cell_get r ''revenue_yoy'') (rows out) = yoy"
    by (simp add: c4)
  show "group_pct_change fill 1 (map (\<lambda>r. cell_get r ''ticker'') (rows df2))
           (map (\<lambda>r. cell_get r ''revenue'') (rows df2)) = Inr mom"
    using m by (rule groupby_pct_change_Inr(3))
  show "group_pct_change fill 12 (map (\<lambda>r. cell_get r ''ticker'') (rows df2))
           (map (\<lambda>r. cell_get r ''revenue'') (rows df2)) = Inr yoy"
    using groupby_pct_change_Inr(3) [OF y] by (simp add: c3)
  show "length (rows out) = length (rows df2)"
    unfolding out using ly l3 by (simp add: length_rows_setitem)
  show "set (columns out) = insert ''revenue_yoy'' (insert ''revenue_mom'' (set (columns df2)))"
    unfolding out by (simp add: columns_setitem)
qed


lemma keys_from_columns:
  assumes "map (\<lambda>r. cell_get r ''ticker'') xs = map (\<lambda>r. cell_get r ''ticker'') ys"
    and "map (\<lambda>r. cell_get r ''date'') xs = map (\<lambda>r. cell_get r ''date'') ys"
  shows "map (\<lambda>r. [cell_key (cell_get r ''ticker''), cell_key (cell_get r ''date'')]) xs
       = map (\<lambda>r. [cell_key (cell_get r ''ticker''), cell_key (cell_get r ''date'')]) ys"
proof -
  have l: "length xs = length ys" using assms(1) by (rule map_eq_imp_length_eq)
  show ?thesis
  proof (rule nth_equalityI)
    show "length (map (\<lambda>r. [cell_key (cell_get r ''ticker''), cell_key (cell_get r ''date'')]) xs)
        = length (map (\<lambda>r. [cell_key (cell_get r ''ticker''), cell_key (cell_get r ''date'')]) ys)"
      using l by simp
  next
    fix i assume "i < length (map (\<lambda>r. [cell_key (cell_get r ''ticker''), cell_key (cell_get r ''date'')]) xs)"
    then have i: "i < length xs" by simp
    have "cell_get (xs ! i) ''ticker'' = cell_get (ys ! i) ''ticker''"
      using arg_cong [OF assms(1), of "\<lambda>l. l ! i"] i l by simp
    moreover have "cell_get (xs ! i) ''date'' = cell_get (ys ! i) ''date''"
      using arg_cong [OF assms(2), of "\<lambda>l. l ! i"] i l by simp
    ultimately show "map (\<lambda>r. [cell_key (cell_get r ''ticker''), cell_key (cell_get r ''date'')]) xs ! i
        = map (\<lambda>r. [cell_key (cell_get r ''ticker''), cell_key (cell_get r ''date'')]) ys ! i"
      using i l by simp
  qed
qed







lemma enriched_sorted:
  assumes s: "sort_values [''ticker'', ''date''] df1 = Inr df2"
    and t: "map (\<lambda>r. cell_get r ''ticker'') (rows out) = map (\<lambda>r. cell_get r ''ticker'') (rows df2)"
    and d: "map (\<lambda>r. cell_get r ''date'') (rows out) = map (\<lambda>r. cell_get r ''date'') (rows df2)"
  shows "sorted (map (\<lambda>r. [cell_key (cell_get r ''ticker''), cell_key (cell_get r ''date'')]) (rows out))"
proof -
  have "sorted (map (\<lambda>r. [cell_key (cell_get r ''ticker''), cell_key (cell_get r ''date'')]) (rows df2))"
    using sort_values_rows [OF s]
      sorted_sort_key [of "\<lambda>r. map (\<lambda>c. cell_key (cell_get r c)) [''ticker'', ''date'']" "rows df1"]
    by simp
  then show ?thesis
    by (simp only: keys_from_columns [OF t d])
qed


lemma setitem_same:
  assumes "c \<in> set (columns e)" and "bound c e"
  shows "setitem c (map (\<lambda>r. cell_get r c) (rows e)) e = e"
proof -
  have "AList.update c (cell_get r c) r = r" if "r \<in> set (rows e)" for r
  proof -
    from that assms(2) obtain v where "map_of r c = Some v"
      by (auto simp: bound_def list_all_iff)
    then show ?thesis by (simp add: cell_get_def update_triv)
  qed
  then have "map (\<lambda>r. AList.update c (cell_get r c) r) (rows e) = rows e"
    by (simp add: map_idI)
  then show ?thesis
    using assms(1) by (simp add: setitem_map)
qed

lemma bound_setitem_same: "length vs = length (rows df) \<Longrightarrow> bound c (setitem c vs df)"
  by (auto simp: bound_def setitem_def list_all_iff update_conv' dest: set_zip_leftD)

lemma bound_setitem_other: "bound c' df \<Longrightarrow> bound c' (setitem c vs df)"
  by (auto simp: bound_def setitem_def list_all_iff update_conv' dest: set_zip_leftD)

lemma bound_sort_values: "sort_values keys df = Inr df' \<Longrightarrow> bound c df \<Longrightarrow> bound c df'"
  by (auto simp: bound_def sort_values_def list_all_iff split: if_splits)

lemma comparable_cong: "set xs = set ys \<Longrightarrow> comparable xs = comparable ys"
proof -
  assume "set xs = set ys"
  then have "set (filter (\<lambda>k. k \<noteq> None) (map kind_of xs)) = set (filter (\<lambda>k. k \<noteq> None) (map kind_of ys))"
    by auto
  then show ?thesis
    by (simp only: comparable_def length_remdups_card_conv)
qed

lemma sort_values_comparable:
  assumes "sort_values keys df = Inr df'" and "c \<in> set keys"
  shows "comparable (map (\<lambda>r. cell_get r c) (rows df'))"
proof -
  have "comparable (map (\<lambda>r. cell_get r c) (rows df))"
    using assms by (auto simp: sort_values_def list_all_iff split: if_splits)
  moreover have "set (map (\<lambda>r. cell_get r c) (rows df')) = set (map (\<lambda>r. cell_get r c) (rows df))"
    using sort_values_rows [OF assms(1)] by simp
  ultimately show ?thesis
    using comparable_cong by blast
qed

lemma sort_values_sorted_id:
  assumes "set keys \<subseteq> set (columns e)"
    and "list_all (\<lambda>c. comparable (map (\<lambda>r. cell_get r c) (rows e))) keys"
    and "sorted (map (\<lambda>r. map (\<lambda>c. cell_key (cell_get r c)) keys) (rows e))"
  shows "sort_values keys e = Inr e"
  using assms by (simp add: sort_values_def sort_key_id_if_sorted)

lemma enrich_kpi_fixed:
  assumes e: "enrich_kpi w df = Inr out" and ne: "\<not> is_empty df"
  shows "enrich_kpi w out = Inr out"
proof -
  from e ne obtain ts df2 mom yoy where
    d: "''date'' \<in> set (columns df)"
    and ts: "to_datetime w (map (\<lambda>r. cell_get r ''date'') (rows df)) = Inr ts"
    and s: "sort_values [''ticker'', ''date''] (setitem ''date'' ts df) = Inr df2"
    and m: "groupby_pct_change (pct_fill w) ''ticker'' ''revenue'' 1 df2 = Inr mom"
    and y: "groupby_pct_change (pct_fill w) ''ticker'' ''revenue'' 12 (setitem ''revenue_mom'' mom df2) = Inr yoy"
    and out: "out = setitem ''revenue_yoy'' yoy (setitem ''revenue_mom'' mom df2)"
    by (rule enrich_kpi_Inr)
  note c = enriched_columns [OF m y out]
  let ?df1 = "setitem ''date'' ts df"
  let ?df3 = "setitem ''revenue_mom'' mom df2"
  have lts: "length ts = length (rows df)"
    using to_datetime_length [OF ts] by simp
  have r2: "rows df2 = sort_key (\<lambda>r. map (\<lambda>c. cell_key (cell_get r c)) [''ticker'', ''date'']) (rows ?df1)"
    and k2: "columns df2 = columns ?df1"
    using sort_values_rows [OF s] by simp_all
  have lm: "length mom = length (rows df2)"
    using m by (rule groupby_pct_change_Inr(4))
  have ly: "length yoy = length (rows ?df3)"
    using y by (rule groupby_pct_change_Inr(4))
  \<comment> \<open>the labels of the enriched table\<close>
  have cols: "''date'' \<in> set (columns out)" "''ticker'' \<in> set (columns out)" "''revenue'' \<in> set (columns out)"
    "''revenue_mom'' \<in> set (columns out)" "''revenue_yoy'' \<in> set (columns out)"
    using groupby_pct_change_Inr(1,2) [OF m] d by (simp_all add: c(9) k2 columns_setitem)
  \<comment> \<open>it is not empty\<close>
  have "length (rows out) = length (rows df)"
    using c(8) r2 lts by (simp add: length_rows_setitem)
  then have "rows out \<noteq> []"
    using ne by (auto simp: is_empty_def)
  moreover have "columns out \<noteq> []"
    using cols(1) by auto
  ultimately have ne': "\<not> is_empty out"
    by (simp add: is_empty_def)
  \<comment> \<open>its dates are timestamps already\<close>
  have "map (\<lambda>r. cell_get r ''date'') (rows ?df1) = ts"
    using lts by (simp add: column_setitem)
  then have "list_all is_stamp (map (\<lambda>r. cell_get r ''date'') (rows ?df1))"
    using to_datetime_stamps [OF ts] by simp
  then have "list_all is_stamp (map (\<lambda>r. cell_get r ''date'') (rows df2))"
    by (simp add: r2 list_all_iff)
  then have "list_all is_stamp (map (\<lambda>r. cell_get r ''date'') (rows out))"
    by (simp only: c(3))
  then have 1: "to_datetime w (map (\<lambda>r. cell_get r ''date'') (rows out)) = Inr (map (\<lambda>r. cell_get r ''date'') (rows out))"
    by (rule to_datetime_fixed)
  \<comment> \<open>every row has its date, its mom and its yoy cell\<close>
  have "bound ''date'' ?df1"
    using lts by (simp add: bound_setitem_same)
  then have "bound ''date'' df2"
    using s by (rule bound_sort_values [rotated])
  then have bd: "bound ''date'' out"
    unfolding out by (intro bound_setitem_other)
  have bm: "bound ''revenue_mom'' out"
    unfolding out using lm by (intro bound_setitem_other bound_setitem_same)
  have by': "bound ''revenue_yoy'' out"
    unfolding out using ly by (intro bound_setitem_same)
  have 2: "setitem ''date'' (map (\<lambda>r. cell_get r ''date'') (rows out)) out = out"
    using cols(1) bd by (rule setitem_same)
  \<comment> \<open>it is sorted\<close>
  have "comparable (map (\<lambda>r. cell_get r ''ticker'') (rows out))"
    unfolding c(1) using s by (rule sort_values_comparable) simp
  moreover have "comparable (map (\<lambda>r. cell_get r ''date'') (rows out))"
    unfolding c(3) using s by (rule sort_values_comparable) simp
  moreover have "sorted (map (\<lambda>r. map (\<lambda>c. cell_key (cell_get r c)) [''ticker'', ''date'']) (rows out))"
    using enriched_sorted [OF s c(1) c(3)] by simp
  ultimately have 3: "sort_values [''ticker'', ''date''] out = Inr out"
    using cols by (intro sort_values_sorted_id) simp_all
  \<comment> \<open>the two rates are recomputed from the same keys and values\<close>
  have 4: "groupby_pct_change (pct_fill w) ''ticker'' ''revenue'' 1 out = Inr mom"
    using cols c(6) by (simp add: groupby_pct_change_def c(1) c(2))
  have 5: "setitem ''revenue_mom'' mom out = out"
    using setitem_same [OF cols(4) bm] by (simp only: c(4))
  have 6: "groupby_pct_change (pct_fill w) ''ticker'' ''revenue'' 12 out = Inr yoy"
    using cols c(7) by (simp add: groupby_pct_change_def c(1) c(2))
  have 7: "setitem ''revenue_yoy'' yoy out = out"
    using setitem_same [OF cols(5) by'] by (simp only: c(5))
  show ?thesis
    using ne' cols(1) 1 2 3 4 5 6 7 by (simp add: enrich_kpi_def getitem_def Let_def)
qed





text \<open>
  C8. Enriching twice is enriching once: \<open>enrich_kpi\<close> applied to its own result returns
  that result, for every table; and where the first call raises, so does the composition,
  with the same exception. (An enriched table has timestamps for dates, is sorted, and has
  both rate columns; the second call recomputes the same rates from the same tickers and
  revenues and assigns them to the cells that hold them already.)
\<close>

theorem enrich_kpi_idempotent:
  "(case enrich_kpi w df of Inl e \<Rightarrow> Inl e | Inr out \<Rightarrow> enrich_kpi w out) = enrich_kpi w df"
proof (cases "enrich_kpi w df")
  case (Inl e)
  then show ?thesis by simp
next
  case (Inr out)
  show ?thesis
  proof (cases "is_empty df")
    case True
    then show ?thesis by (simp add: enrich_kpi_def)
  next
    case False
    with Inr have "enrich_kpi w out = Inr out" by (rule enrich_kpi_fixed)
    with Inr show ?thesis by simp
  qed
qed

theorem enrich_kpi_idempotent_witness:
  "enrich_kpi ex_world ex_zero = Inr ex_zero_enriched
   \<and> enrich_kpi ex_world ex_zero_enriched = Inr ex_zero_enriched
   \<and> (case enrich_kpi ex_world ex_zero of Inl e \<Rightarrow> Inl e | Inr out \<Rightarrow> enrich_kpi ex_world out)
       = enrich_kpi ex_world ex_zero"
proof -
  have 1: "enrich_kpi ex_world ex_zero = Inr ex_zero_enriched"
    by code_simp
  from enrich_kpi_idempotent [of ex_world ex_zero] 1
  have "enrich_kpi ex_world ex_zero_enriched = Inr ex_zero_enriched"
    by simp
  with 1 enrich_kpi_idempotent [of ex_world ex_zero] show ?thesis by blast
qed

end
